theory Spec2Isabelle
  imports Complex_Main "HOL-Library.AList"
begin

section \<open>Numbers, attributes and the particle configuration\<close>

text \<open>
  JavaScript numbers are modelled as exact reals; \<open>number\<close> adds NaN (\<open>None\<close>)
  where the source can produce it: \<open>parseFloat\<close> of a string that is no number,
  and the remainder \<open>a % b\<close> with \<open>b = 0\<close>. Comparisons with NaN are false and
  arithmetic on NaN gives NaN, as in the source.

  An attribute value is a string. A string that \<open>parseFloat\<close> reads as a (finite)
  number is represented by that number (\<open>n.toString()\<close>, or a literal such as
  \<open>'0'\<close>), any other string by its text. An element's attributes are a map from
  names to values; the \<open>class\<close> attribute is kept apart, as the list of its
  tokens, and an inline style declaration \<open>style="p: v"\<close> is the attribute
  \<open>style:p\<close>.
\<close>

datatype attr = Num real | Str string

type_synonym attrs = "string \<rightharpoonup> attr"

type_synonym number = "real option"

definition getAttribute :: "attrs \<Rightarrow> string \<Rightarrow> attr option" where
  "getAttribute as k = as k"

definition setAttribute :: "string \<Rightarrow> attr \<Rightarrow> attrs \<Rightarrow> attrs" where
  "setAttribute k v as = as(k \<mapsto> v)"

text \<open>\<open>parseFloat(s)\<close>, \<open>n.toString()\<close> and \<open>a || b\<close> on attribute strings
  (\<open>null\<close> and the empty string are falsy).\<close>

fun parseFloat :: "attr \<Rightarrow> number" where
  "parseFloat (Num r) = Some r"
| "parseFloat (Str s) = None"

fun toString :: "number \<Rightarrow> attr" where
  "toString (Some r) = Num r"
| "toString None = Str ''NaN''"

fun orElse :: "attr option \<Rightarrow> attr \<Rightarrow> attr" where
  "orElse None d = d"
| "orElse (Some (Str [])) d = d"
| "orElse (Some a) d = a"

text \<open>\<open>Math.max\<close>, \<open>-\<close>, \<open>/\<close> and \<open>!==\<close> on numbers with NaN.\<close>

fun Math_max :: "number \<Rightarrow> number \<Rightarrow> number" where
  "Math_max (Some a) (Some b) = Some (max a b)"
| "Math_max a b = None"

fun num_minus :: "number \<Rightarrow> number \<Rightarrow> number" where
  "num_minus (Some a) (Some b) = Some (a - b)"
| "num_minus a b = None"


fun num_half :: "number \<Rightarrow> number" where
  "num_half (Some a) = Some (a / 2)"
| "num_half None = None"

fun strictNotEqual :: "number \<Rightarrow> number \<Rightarrow> bool" where
  "strictNotEqual (Some a) (Some b) = (a \<noteq> b)"
| "strictNotEqual a b = True"

text \<open>constants.ts: \<open>PARTICLE_CONFIG\<close>.\<close>

record ParticleConfig =
  particleCount :: nat
  minDuration :: real
  maxDuration :: real
  durationMultiplier :: real

definition PARTICLE_CONFIG :: ParticleConfig where
  "PARTICLE_CONFIG =
     \<lparr>particleCount = 1, minDuration = 2000, maxDuration = 3500, durationMultiplier = 15\<rparr>"

text \<open>particleUtils.ts: \<open>calculateDuration\<close>.\<close>

definition calculateDuration :: "real \<Rightarrow> real" where
  "calculateDuration pathLength =
     max (minDuration PARTICLE_CONFIG)
       (min (maxDuration PARTICLE_CONFIG) (pathLength * durationMultiplier PARTICLE_CONFIG))"

text \<open>particleUtils.ts: \<open>easeInOutCubic\<close> and \<open>calculateOpacity\<close>.\<close>

definition easeInOutCubic :: "real \<Rightarrow> real" where
  "easeInOutCubic t = (if t < 0.5 then 4 * t * t * t else 1 - (- 2 * t + 2) ^ 3 / 2)"

definition calculateOpacity :: "real \<Rightarrow> real" where
  "calculateOpacity progress =
     (let fadeInEnd = 0.15; fadeOutStart = 0.85 in
      if progress < fadeInEnd then progress / fadeInEnd
      else if progress > fadeOutStart then (1 - progress) / (1 - fadeOutStart)
      else 1)"

section \<open>Particles: the particle layer, scheduling and the frame update\<close>

text \<open>
  The particle layer is the \<open><g class="particle-layer">\<close> element. Its children are
  circle elements; a circle is named by its handle (its index in append order), and
  \<open>circles\<close> gives the attributes of each. Object identity of the source
  (\<open>animation.glowElement !== animation.element\<close>) is equality of handles.
\<close>

record ParticleLayer =
  childCount :: nat
  circles :: "nat \<Rightarrow> attrs"


definition setCircleAttribute :: "nat \<Rightarrow> string \<Rightarrow> attr \<Rightarrow> ParticleLayer \<Rightarrow> ParticleLayer" where
  "setCircleAttribute h k v g = g\<lparr>circles := (circles g)(h := setAttribute k v (circles g h))\<rparr>"






text \<open>
  types.ts: \<open>ParticleAnimation\<close>. A path element is named by its position in the
  graphic tree (the child indices from the root).
\<close>

type_synonym node_ref = "nat list"

record ParticleAnimation =
  element :: nat
  glowElement :: nat
  path :: node_ref
  pathLength :: real
  duration :: real
  offset :: real
  startTime :: real




text \<open>
  particleUtils.ts: \<open>updateParticlePosition\<close>. The remainder \<open>a % b\<close> truncates
  towards zero and is NaN (\<open>None\<close>) for \<open>b = 0\<close>. \<open>getPointAtLength\<close> is the
  browser's geometry; \<open>None\<close> is the exception the source catches.
\<close>

definition js_rem :: "real \<Rightarrow> real \<Rightarrow> real option" where
  "js_rem a b =
     (if b = 0 then None
      else Some (a - b * of_int (if 0 \<le> a / b then \<lfloor>a / b\<rfloor> else \<lceil>a / b\<rceil>)))"

definition cycleTime :: "real \<Rightarrow> real \<Rightarrow> real \<Rightarrow> real option" where
  "cycleTime currentTime totalSequenceDuration sequenceStartTime =
     js_rem (currentTime - sequenceStartTime) totalSequenceDuration"

definition isInActiveWindow :: "ParticleAnimation \<Rightarrow> real \<Rightarrow> real \<Rightarrow> real \<Rightarrow> bool" where
  "isInActiveWindow animation currentTime totalSequenceDuration sequenceStartTime =
     (case cycleTime currentTime totalSequenceDuration sequenceStartTime of
        None \<Rightarrow> False
      | Some ct \<Rightarrow>
          (let particleStartInSequence = startTime animation - sequenceStartTime;
               particleEndInSequence = particleStartInSequence + duration animation
           in ct \<ge> particleStartInSequence \<and> ct < particleEndInSequence))"

definition progressInParticle :: "ParticleAnimation \<Rightarrow> real \<Rightarrow> real \<Rightarrow> real \<Rightarrow> real" where
  "progressInParticle animation currentTime totalSequenceDuration sequenceStartTime =
     (case cycleTime currentTime totalSequenceDuration sequenceStartTime of
        None \<Rightarrow> 0
      | Some ct \<Rightarrow> (ct - (startTime animation - sequenceStartTime)) / duration animation)"

definition updateParticlePosition ::
  "(node_ref \<Rightarrow> real \<Rightarrow> (real \<times> real) option) \<Rightarrow> ParticleAnimation \<Rightarrow> real \<Rightarrow> bool
     \<Rightarrow> real \<Rightarrow> real \<Rightarrow> ParticleLayer \<Rightarrow> ParticleLayer" where
  "updateParticlePosition getPointAtLength animation currentTime isCore
       totalSequenceDuration sequenceStartTime g =
     (if \<not> isInActiveWindow animation currentTime totalSequenceDuration sequenceStartTime
      then
        (let g1 = setCircleAttribute (element animation) ''opacity'' (Num 0) g
         in if isCore \<and> glowElement animation \<noteq> element animation
            then setCircleAttribute (glowElement animation) ''opacity'' (Num 0) g1
            else g1)
      else
        (let progress =
               progressInParticle animation currentTime totalSequenceDuration sequenceStartTime;
             easedProgress = easeInOutCubic progress;
             distance = easedProgress * pathLength animation;
             opac = calculateOpacity progress
         in case getPointAtLength (path animation) distance of
              None \<Rightarrow> g
            | Some (x, y) \<Rightarrow>
                (let g1 = setCircleAttribute (element animation) ''cx'' (Num x) g;
                     g2 = setCircleAttribute (element animation) ''cy'' (Num y) g1;
                     g3 = setCircleAttribute (element animation) ''opacity'' (Num opac) g2
                 in if isCore \<and> glowElement animation \<noteq> element animation
                    then
                      (let g4 = setCircleAttribute (glowElement animation) ''cx'' (Num x) g3;
                           g5 = setCircleAttribute (glowElement animation) ''cy'' (Num y) g4
                       in setCircleAttribute (glowElement animation) ''opacity'' (Num opac) g5)
                    else g3)))"





text \<open>
  The variables the closures \<open>animate\<close> and the returned cleanup share.
  \<open>animationFrameId = 0\<close> stands for the unassigned variable (falsy, like every
  identifier not yet handed out).
\<close>

record AnimationLoop =
  sequenceStartTime :: real
  totalSequenceDuration :: real
  animationFrameId :: nat





section \<open>The graphic tree and selectors\<close>

text \<open>
  The rendered diagram is a tree of elements and text. An element has its own data (tag
  name, class tokens, attributes) and its children. The text of a style element that
  the component writes is kept as the list of the rules it spells (\<open>StyleText\<close>).
  An element is named by its position in the tree: the child indices on the way from
  the root (\<open>node_ref\<close>). The root is the \<open>svg\<close> element; selectors are matched
  inside it, so its own ancestors in the page are taken to carry none of the classes
  the selectors name.
\<close>

datatype css_value = CssText string | CssNumber real | CssPx real

datatype css_rule = Rule string string css_value

record elem =
  tagName :: string
  classList :: "string list"
  attributes :: attrs

datatype node =
    Element elem "node list"
  | TextNode string
  | StyleText "css_rule list"

abbreviation El :: "string \<Rightarrow> string list \<Rightarrow> attrs \<Rightarrow> node list \<Rightarrow> node" where
  "El t cl as cs \<equiv> Element \<lparr>tagName = t, classList = cl, attributes = as\<rparr> cs"

fun childNodes :: "node \<Rightarrow> node list" where
  "childNodes (Element e cs) = cs"
| "childNodes n = []"

text \<open>\<open>el.classList.add(c)\<close>, \<open>el.setAttribute(k, v)\<close>, \<open>el.getAttribute(k)\<close>.\<close>

definition classList_add :: "string \<Rightarrow> elem \<Rightarrow> elem" where
  "classList_add c e =
     e\<lparr>classList := (if c \<in> set (classList e) then classList e else classList e @ [c])\<rparr>"

definition setAttr :: "string \<Rightarrow> attr \<Rightarrow> elem \<Rightarrow> elem" where
  "setAttr k v e = e\<lparr>attributes := setAttribute k v (attributes e)\<rparr>"

definition getAttr :: "elem \<Rightarrow> string \<Rightarrow> attr option" where
  "getAttr e k = getAttribute (attributes e) k"

fun appendChildNode :: "node \<Rightarrow> node \<Rightarrow> node" where
  "appendChildNode (Element e cs) c = Element e (cs @ [c])"
| "appendChildNode n c = n"



text \<open>
  The selectors the component uses: a compound selector is an optional tag with class
  tokens (\<open>path.edge\<close>), a complex selector is a compound or a descendant pair
  (\<open>.node rect\<close>), and a selector is a comma list of those. \<open>anc\<close> is the list of
  the ancestors of the element, nearest first.
\<close>

datatype compound_selector = Compound "string option" "string list"

datatype complex_selector = Simple compound_selector | Descendant compound_selector compound_selector

type_synonym selector = "complex_selector list"

fun matchesCompound :: "compound_selector \<Rightarrow> elem \<Rightarrow> bool" where
  "matchesCompound (Compound tg cls) e =
     ((case tg of None \<Rightarrow> True | Some x \<Rightarrow> x = tagName e)
      \<and> list_all (\<lambda>c. c \<in> set (classList e)) cls)"

fun matchesComplex :: "elem list \<Rightarrow> elem \<Rightarrow> complex_selector \<Rightarrow> bool" where
  "matchesComplex anc e (Simple c) = matchesCompound c e"
| "matchesComplex anc e (Descendant a c) =
     (matchesCompound c e \<and> list_ex (matchesCompound a) anc)"

definition matches :: "selector \<Rightarrow> elem list \<Rightarrow> elem \<Rightarrow> bool" where
  "matches sel anc e = list_ex (matchesComplex anc e) sel"

text \<open>
  The elements of a subtree that satisfy \<open>P\<close>, in document order; \<open>selectList\<close>
  goes through the children from index \<open>i\<close> on.
\<close>

fun select :: "(elem list \<Rightarrow> elem \<Rightarrow> bool) \<Rightarrow> elem list \<Rightarrow> node \<Rightarrow> node_ref list"
  and selectList ::
    "(elem list \<Rightarrow> elem \<Rightarrow> bool) \<Rightarrow> elem list \<Rightarrow> nat \<Rightarrow> node list \<Rightarrow> node_ref list" where
  "select P anc (Element e cs) =
     (if P anc e then [[]] else []) @ selectList P (e # anc) 0 cs"
| "select P anc (TextNode s) = []"
| "select P anc (StyleText rs) = []"
| "selectList P anc i [] = []"
| "selectList P anc i (c # cs) = map ((#) i) (select P anc c) @ selectList P anc (Suc i) cs"

text \<open>\<open>el.querySelectorAll(sel)\<close>: the descendants of \<open>el\<close> that match, not \<open>el\<close>.\<close>

definition querySelectorAll :: "node \<Rightarrow> selector \<Rightarrow> node_ref list" where
  "querySelectorAll el sel =
     (case el of Element e cs \<Rightarrow> selectList (matches sel) [e] 0 cs | _ \<Rightarrow> [])"

fun nodeAt :: "node \<Rightarrow> node_ref \<Rightarrow> node option" where
  "nodeAt n [] = Some n"
| "nodeAt (Element e cs) (i # r) = (if i < length cs then nodeAt (cs ! i) r else None)"
| "nodeAt n (i # r) = None"

definition elemAt :: "node \<Rightarrow> node_ref \<Rightarrow> elem option" where
  "elemAt n r = (case nodeAt n r of Some (Element e cs) \<Rightarrow> Some e | _ \<Rightarrow> None)"



text \<open>
  \<open>modifyAt r f\<close> is a mutation \<open>f\<close> of the element at \<open>r\<close>; \<open>forEach\<close> is
  \<open>list.forEach(f)\<close> over a static list of elements.
\<close>

fun modifyAt :: "node_ref \<Rightarrow> (elem \<Rightarrow> elem) \<Rightarrow> node \<Rightarrow> node"
  and modifyNth :: "nat \<Rightarrow> node_ref \<Rightarrow> (elem \<Rightarrow> elem) \<Rightarrow> node list \<Rightarrow> node list" where
  "modifyAt [] f (Element e cs) = Element (f e) cs"
| "modifyAt (i # r) f (Element e cs) = Element e (modifyNth i r f cs)"
| "modifyAt r f (TextNode s) = TextNode s"
| "modifyAt r f (StyleText rs) = StyleText rs"
| "modifyNth i r f [] = []"
| "modifyNth 0 r f (c # cs) = modifyAt r f c # cs"
| "modifyNth (Suc i) r f (c # cs) = c # modifyNth i r f cs"

definition forEach :: "node_ref list \<Rightarrow> (elem \<Rightarrow> elem) \<Rightarrow> node \<Rightarrow> node" where
  "forEach refs f svg = foldl (\<lambda>t r. modifyAt r f t) svg refs"

section \<open>svgUtils.ts: the structural classifier\<close>





definition SELECTORS_edgeLabelRects :: selector where
  "SELECTORS_edgeLabelRects =
     [Descendant (Compound None [''edgeLabel'']) (Compound (Some ''rect'') [])]"

record EdgeLabelMinSize =
  minWidth :: real
  minHeight :: real
  borderRadius :: real

definition EDGE_LABEL_MIN_SIZE :: EdgeLabelMinSize where
  "EDGE_LABEL_MIN_SIZE = \<lparr>minWidth = 90, minHeight = 50, borderRadius = 12\<rparr>"




text \<open>\<open>enhanceEdgeLabelBoxes\<close>: the body of its \<open>forEach\<close>, then the function.\<close>

definition enhanceEdgeLabelBox :: "elem \<Rightarrow> elem" where
  "enhanceEdgeLabelBox rect =
     (let width = parseFloat (orElse (getAttr rect ''width'') (Num 0));
          height = parseFloat (orElse (getAttr rect ''height'') (Num 0));
          paddedMinWidth = minWidth EDGE_LABEL_MIN_SIZE + 20;
          paddedMinHeight = minHeight EDGE_LABEL_MIN_SIZE + 10;
          newWidth = Math_max width (Some paddedMinWidth);
          r1 = (if strictNotEqual newWidth width
                then (let r = setAttr ''width'' (toString newWidth) rect;
                          x = parseFloat (orElse (getAttr r ''x'') (Num 0))
                      in setAttr ''x''
                           (toString (num_minus x (num_half (num_minus newWidth width)))) r)
                else rect);
          newHeight = Math_max height (Some paddedMinHeight);
          r2 = (if strictNotEqual newHeight height
                then (let r = setAttr ''height'' (toString newHeight) r1;
                          y = parseFloat (orElse (getAttr r ''y'') (Num 0))
                      in setAttr ''y''
                           (toString (num_minus y (num_half (num_minus newHeight height)))) r)
                else r1)
      in setAttr ''ry'' (Num (borderRadius EDGE_LABEL_MIN_SIZE))
           (setAttr ''rx'' (Num (borderRadius EDGE_LABEL_MIN_SIZE)) r2))"

definition enhanceEdgeLabelBoxes :: "node \<Rightarrow> node" where
  "enhanceEdgeLabelBoxes svg =
     forEach (querySelectorAll svg SELECTORS_edgeLabelRects) enhanceEdgeLabelBox svg"










section \<open>index.tsx: setting up the particles\<close>



section \<open>index.tsx: the custom theme\<close>

text \<open>
  types.ts: \<open>CustomTheme\<close>, every field optional. \<open>if (theme.field)\<close> holds for
  a non-empty string and for a number other than 0.
\<close>

record CustomTheme =
  primaryColor :: "string option"
  secondaryColor :: "string option"
  backgroundColor :: "string option"
  textColor :: "string option"
  particleColor :: "string option"
  strokeWidth :: "real option"
  fontSize :: "real option"

fun truthyString :: "string option \<Rightarrow> bool" where
  "truthyString None = False"
| "truthyString (Some s) = (s \<noteq> [])"

fun truthyNumber :: "real option \<Rightarrow> bool" where
  "truthyNumber None = False"
| "truthyNumber (Some n) = (n \<noteq> 0)"

text \<open>
  The text \<open>customStyles\<close> that \<open>applyCustomTheme\<close> builds, as the list of its
  rules (selector, property, value; each is \<open>!important\<close>).
\<close>

definition customStyles :: "CustomTheme \<Rightarrow> css_rule list" where
  "customStyles theme =
     (if truthyString (primaryColor theme)
      then [Rule ''.animated-node'' ''stroke'' (CssText (the (primaryColor theme))),
            Rule ''.animated-edge'' ''stroke'' (CssText (the (primaryColor theme))),
            Rule ''.actor'' ''stroke'' (CssText (the (primaryColor theme))),
            Rule ''.messageLine0, .messageLine1'' ''stroke''
              (CssText (the (primaryColor theme)))]
      else [])
     @ (if truthyNumber (strokeWidth theme)
        then [Rule ''.animated-node'' ''stroke-width'' (CssNumber (the (strokeWidth theme))),
              Rule ''.animated-edge'' ''stroke-width'' (CssNumber (the (strokeWidth theme)))]
        else [])
     @ (if truthyString (textColor theme)
        then [Rule ''.nodeLabel, .edgeLabel, .actor text, .messageText'' ''fill''
                (CssText (the (textColor theme)))]
        else [])
     @ (if truthyNumber (fontSize theme)
        then [Rule ''.nodeLabel, .edgeLabel text, .actor text'' ''font-size''
                (CssPx (the (fontSize theme)))]
        else [])"

text \<open>
  \<open>applyCustomTheme\<close>: \<open>None\<close> is the absent \<open>theme\<close> prop. The style element
  is appended to the root when the text is not empty.
\<close>

definition styleElement :: "css_rule list \<Rightarrow> node" where
  "styleElement rules = El ''style'' [] Map.empty [StyleText rules]"

definition applyCustomTheme :: "CustomTheme option \<Rightarrow> node \<Rightarrow> node" where
  "applyCustomTheme theme svgElement =
     (case theme of
        None \<Rightarrow> svgElement
      | Some th \<Rightarrow>
          if customStyles th \<noteq> [] then appendChildNode svgElement (styleElement (customStyles th))
          else svgElement)"

section \<open>exportUtils.ts: inlining remote images\<close>

text \<open>
  The export utilities await browser operations. What each operation does is a
  parameter: \<open>None\<close> is a rejected promise, a thrown exception or an error event,
  \<open>Some\<close> the value it yields (every operation is taken to settle). A promise of
  the component is its outcome: \<open>Inr\<close> the value it resolves to, \<open>Inl\<close> the
  reason it rejects with.
\<close>

datatype export_error =
    FileReaderError
  | ImageLoadError
  | CanvasContextError
  | CanvasError

record ExportEnv =
  fetch :: "string \<Rightarrow> string option"
  blob :: "string \<Rightarrow> string option"
  readAsDataURL :: "string \<Rightarrow> string option"
  loadImage :: "string \<Rightarrow> string option"
  getContext2d :: "string \<Rightarrow> bool"
  drawAndEncode :: "string \<Rightarrow> string option"

definition TRANSPARENT_PIXEL :: string where
  "TRANSPARENT_PIXEL =
     ''data:image/png;base64,iVBORw0KGgoAAAANSUhEUgAAAAEAAAABCAYAAAAfFcSJAAAADUlEQVR42mNk+M9QDwADhgGAWjR9awAAAABJRU5ErkJggg==''"

text \<open>
  \<open>new Promise((resolve, reject) => { reader.onloadend = ...; reader.onerror = reject;
  reader.readAsDataURL(blob) })\<close>: an error event rejects first.
\<close>

definition readBlob :: "ExportEnv \<Rightarrow> string \<Rightarrow> export_error + string" where
  "readBlob env b = (case readAsDataURL env b of None \<Rightarrow> Inl FileReaderError | Some uri \<Rightarrow> Inr uri)"

text \<open>\<open>loadImageAsDataUri\<close> (the copy of exportUtils.ts that has it).\<close>

definition loadImageAsDataUri :: "ExportEnv \<Rightarrow> string \<Rightarrow> export_error + string" where
  "loadImageAsDataUri env url =
     (case loadImage env url of
        None \<Rightarrow> Inl ImageLoadError
      | Some img \<Rightarrow>
          if \<not> getContext2d env img then Inl CanvasContextError
          else (case drawAndEncode env img of
                  None \<Rightarrow> Inl CanvasError
                | Some dataUri \<Rightarrow> Inr dataUri))"

text \<open>
  \<open>urlToDataUri\<close>, the copy with the fallback chain. The promise of the file
  reader is returned from inside \<open>try\<close> without \<open>await\<close>: the \<open>catch\<close> sees
  a failure of \<open>fetch\<close> and of \<open>response.blob()\<close>, which are awaited, and not a
  rejection of the returned promise.
\<close>

definition urlToDataUri :: "ExportEnv \<Rightarrow> string \<Rightarrow> export_error + string" where
  "urlToDataUri env url =
     (let fallback = (case loadImageAsDataUri env url of
                        Inr dataUri \<Rightarrow> Inr dataUri
                      | Inl imgError \<Rightarrow> Inr TRANSPARENT_PIXEL)
      in case fetch env url of
           None \<Rightarrow> fallback
         | Some response \<Rightarrow>
             (case blob env response of
                None \<Rightarrow> fallback
              | Some b \<Rightarrow> readBlob env b))"

text \<open>\<open>urlToDataUri\<close>, the other copy of exportUtils.ts: its \<open>catch\<close> returns the
  original URL.\<close>

definition urlToDataUri_other_copy :: "ExportEnv \<Rightarrow> string \<Rightarrow> export_error + string" where
  "urlToDataUri_other_copy env url =
     (case fetch env url of
        None \<Rightarrow> Inr url
      | Some response \<Rightarrow>
          (case blob env response of
             None \<Rightarrow> Inr url
           | Some b \<Rightarrow> readBlob env b))"

text \<open>
  \<open>inlineStyles\<close>, the image part: every \<open>image\<close> whose \<open>href\<close> (or
  \<open>xlink:href\<close>) starts with \<open>http\<close> gets the result of \<open>urlToDataUri\<close>;
  \<open>Promise.all\<close> rejects when one of them rejects.
\<close>

fun truthyAttr :: "attr option \<Rightarrow> bool" where
  "truthyAttr None = False"
| "truthyAttr (Some (Str s)) = (s \<noteq> [])"
| "truthyAttr (Some (Num r)) = True"

definition imageHref :: "elem \<Rightarrow> string option" where
  "imageHref img =
     (case (if truthyAttr (getAttr img ''href'') then getAttr img ''href''
            else getAttr img ''xlink:href'') of
        Some (Str href) \<Rightarrow> if href \<noteq> [] \<and> take 4 href = ''http'' then Some href else None
      | _ \<Rightarrow> None)"

fun inlineImages ::
  "(ExportEnv \<Rightarrow> string \<Rightarrow> export_error + string) \<Rightarrow> ExportEnv \<Rightarrow> node_ref list \<Rightarrow> node
     \<Rightarrow> export_error + node" where
  "inlineImages convert env [] svgClone = Inr svgClone"
| "inlineImages convert env (r # rs) svgClone =
     (case Option.bind (elemAt svgClone r) imageHref of
        None \<Rightarrow> inlineImages convert env rs svgClone
      | Some href \<Rightarrow>
          (case convert env href of
             Inl err \<Rightarrow> Inl err
           | Inr dataUri \<Rightarrow>
               inlineImages convert env rs
                 (modifyAt r (\<lambda>img. (setAttr ''href'' (Str dataUri) img)
                     \<lparr>attributes := (attributes (setAttr ''href'' (Str dataUri) img))
                        (''xlink:href'' := None)\<rparr>) svgClone)))"

text \<open>
  \<open>inlineStyles\<close>: the clone gets one style element, holding the text of the
  document's accessible style rules (\<open>allStyles\<close>, joined), as its first child;
  then its images are converted.
\<close>

definition inlineStyles ::
  "(ExportEnv \<Rightarrow> string \<Rightarrow> export_error + string) \<Rightarrow> ExportEnv \<Rightarrow> string \<Rightarrow> node
     \<Rightarrow> export_error + node" where
  "inlineStyles convert env allStyles svgElement =
     (let svgClone = (case svgElement of
                        Element e cs \<Rightarrow> Element e (El ''style'' [] Map.empty [TextNode allStyles] # cs)
                      | n \<Rightarrow> n);
          images = querySelectorAll svgClone [Simple (Compound (Some ''image'') [])]
      in inlineImages convert env images svgClone)"

section \<open>index.tsx: the image micro-syntax\<close>

text \<open>
  \<open>preprocessChart\<close> replaces every match of
  \<open>/participant\s+img:([^\s]+)\s+([^\n]+)/g\<close>. The pattern is a sequence of
  literals and greedy \<open>+\<close> repetitions of a character class, two of them capturing;
  \<open>matchItems\<close> matches such a sequence at the start of a string the way a
  backtracking matcher does: each repetition first takes the longest run and gives
  characters back one at a time (\<open>tryPlus\<close>) until the rest matches. The result is
  the captures and the text after the match. Strings are ASCII; \<open>\s\<close> is tab, line
  feed, vertical tab, form feed, carriage return and space.
\<close>

datatype re_item = Lit string | Plus "char \<Rightarrow> bool" | Capture "char \<Rightarrow> bool"

fun matchItems :: "re_item list \<Rightarrow> string \<Rightarrow> (string list \<times> string) option"
  and tryPlus :: "bool \<Rightarrow> re_item list \<Rightarrow> string \<Rightarrow> nat \<Rightarrow> (string list \<times> string) option" where
  "matchItems [] s = Some ([], s)"
| "matchItems (Lit l # its) s =
     (if take (length l) s = l then matchItems its (drop (length l) s) else None)"
| "matchItems (Plus C # its) s = tryPlus False its s (length (takeWhile C s))"
| "matchItems (Capture C # its) s = tryPlus True its s (length (takeWhile C s))"
| "tryPlus cap its s 0 = None"
| "tryPlus cap its s (Suc n) =
     (case matchItems its (drop (Suc n) s) of
        Some (caps, rest) \<Rightarrow> Some ((if cap then [take (Suc n) s] else []) @ caps, rest)
      | None \<Rightarrow> tryPlus cap its s n)"

definition isSpace :: "char \<Rightarrow> bool" where
  "isSpace c = (c \<in> set [CHR 0x09, CHR 0x0A, CHR 0x0B, CHR 0x0C, CHR 0x0D, CHR '' ''])"

definition PARTICIPANT_IMG :: "re_item list" where
  "PARTICIPANT_IMG =
     [Lit ''participant'', Plus isSpace, Lit ''img:'', Capture (\<lambda>c. \<not> isSpace c),
      Plus isSpace, Capture (\<lambda>c. c \<noteq> CHR 0x0A)]"

definition trim :: "string \<Rightarrow> string" where
  "trim s = rev (dropWhile isSpace (rev (dropWhile isSpace s)))"

fun callback :: "string list \<Rightarrow> string \<times> (string \<times> string) list \<Rightarrow> string \<times> (string \<times> string) list" where
  "callback [imgPath, actorName] (out, imageMappings) =
     (out @ ''participant '' @ actorName, AList.update (trim actorName) imgPath imageMappings)"
| "callback caps st = st"

text \<open>A match consumes at least the literal it starts with, so the scan below ends.\<close>

lemma matchItems_length:
  "matchItems its s = Some (caps, rest) \<Longrightarrow> length rest \<le> length s"
  "tryPlus cap its s n = Some (caps, rest) \<Longrightarrow> length rest \<le> length s"
proof (induction its s and cap its s n arbitrary: caps rest and caps rest rule: matchItems_tryPlus.induct)
  case (1 s)
  then show ?case by simp
next
  case (2 l its s)
  then show ?case by (fastforce split: if_splits)
next
  case (3 C its s)
  then show ?case by simp
next
  case (4 C its s)
  then show ?case by simp
next
  case (5 cap its s)
  then show ?case by simp
next
  case (6 cap its s n)
  then show ?case by (fastforce split: option.splits)
qed

lemma matchItems_Lit_shorter:
  assumes "matchItems (Lit l # its) s = Some (caps, rest)" and "l \<noteq> []"
  shows "length rest < length s"
proof -
  from assms(1) have t: "take (length l) s = l"
    and m: "matchItems its (drop (length l) s) = Some (caps, rest)"
    by (simp_all split: if_splits)
  have "length (take (length l) s) \<le> length s" by simp
  with t have "length l \<le> length s" by simp
  moreover have "length rest \<le> length s - length l"
    using matchItems_length(1) [OF m] by simp
  ultimately show ?thesis using assms(2) by (cases l) auto
qed

lemma PARTICIPANT_IMG_shorter:
  assumes "matchItems PARTICIPANT_IMG s = Some (caps, rest)"
  shows "length rest < length s"
  using assms unfolding PARTICIPANT_IMG_def by (rule matchItems_Lit_shorter) simp

text \<open>
  \<open>chart.replace(regex, callback)\<close>: the scan copies a character where the pattern
  does not match, and at a match appends the replacement and continues after the
  match. The state is the output so far and \<open>imageMappings\<close> (a \<open>Map\<close>:
  insertion order, one value per key). \<open>callback\<close> is the arrow function of the
  source, applied to the two captures.
\<close>

function replaceAll :: "string \<Rightarrow> string \<times> (string \<times> string) list \<Rightarrow> string \<times> (string \<times> string) list" where
  "replaceAll [] st = st"
| "replaceAll (c # cs) (out, m) =
     (case matchItems PARTICIPANT_IMG (c # cs) of
        None \<Rightarrow> replaceAll cs (out @ [c], m)
      | Some (caps, rest) \<Rightarrow> replaceAll rest (callback caps (out, m)))"
  by pat_completeness auto
termination
proof (relation "measure (\<lambda>(s, st). length s)")
  show "wf (measure (\<lambda>(s, st). length s))" by simp
next
  fix c :: char and cs :: string and out :: string and m :: "(string \<times> string) list"
  show "((cs, out @ [c], m), (c # cs, out, m)) \<in> measure (\<lambda>(s, st). length s)" by simp
next
  fix c :: char and cs :: string and out :: string and m :: "(string \<times> string) list"
    and x2 caps rest
  assume "matchItems PARTICIPANT_IMG (c # cs) = Some x2" "(caps, rest) = x2"
  then have "length rest < length (c # cs)"
    using PARTICIPANT_IMG_shorter [of "c # cs" caps rest] by simp
  then show "((rest, callback caps (out, m)), (c # cs, out, m)) \<in> measure (\<lambda>(s, st). length s)"
    by simp
qed


section \<open>index.tsx: actor images\<close>











section \<open>Proof devices for trees\<close>

text \<open>
  \<open>relabel h\<close> applies to the element at each position \<open>r\<close> of a tree the
  function \<open>h r\<close>, and keeps the shape of the tree. Every \<open>forEach\<close> over a
  static list of positions is such a relabelling (lemma \<open>forEach_relabel\<close>).
\<close>

fun relabel :: "(node_ref \<Rightarrow> elem \<Rightarrow> elem) \<Rightarrow> node \<Rightarrow> node"
  and relabelList :: "(node_ref \<Rightarrow> elem \<Rightarrow> elem) \<Rightarrow> nat \<Rightarrow> node list \<Rightarrow> node list" where
  "relabel h (Element e cs) = Element (h [] e) (relabelList h 0 cs)"
| "relabel h (TextNode s) = TextNode s"
| "relabel h (StyleText rs) = StyleText rs"
| "relabelList h i [] = []"
| "relabelList h i (c # cs) = relabel (\<lambda>r. h (i # r)) c # relabelList h (Suc i) cs"

text \<open>
  Two elements are alike for the selectors when they have the same tag and the same
  class tokens apart from the three marker classes the classifier adds.
\<close>

definition markerClasses :: "string set" where
  "markerClasses = {''animated-node'', ''animated-label'', ''animated-edge''}"

definition alike :: "elem \<Rightarrow> elem \<Rightarrow> bool" where
  "alike e e' =
     (tagName e = tagName e'
      \<and> set (classList e) - markerClasses = set (classList e') - markerClasses)"








section \<open>Charts as lines\<close>

text \<open>
  The shape of the inputs that the statement about \<open>preprocessChart\<close> ranges over: a
  chart is a list of lines, each either a declaration
  \<open>participant img:<locator> <displayName>\<close> after some indentation, or a line
  without the token \<open>img:\<close>. \<open>source_line\<close> is the text of a line,
  \<open>cleaned_line\<close> the text the claim expects for it, and \<open>record_line\<close> the
  entry the claim expects in the mapping.
\<close>

abbreviation NL :: char where "NL \<equiv> CHR 0x0A"









section \<open>Example inputs\<close>

text \<open>A flowchart with one node and two edges, of path lengths 100 and 200.\<close>

definition example_flowchart :: node where
  "example_flowchart = El ''svg'' [] Map.empty
     [El ''g'' [''node''] Map.empty [El ''rect'' [] Map.empty []],
      El ''path'' [''flowchart-link''] Map.empty [],
      El ''path'' [''flowchart-link''] Map.empty []]"



text \<open>A core particle scheduled at 1000 for 2000 ms on a path of length 100, and a
  particle layer in which its circle sits at (5, 7).\<close>

definition example_animation :: ParticleAnimation where
  "example_animation = \<lparr>element = 1, glowElement = 2, path = [0], pathLength = 100,
     duration = 2000, offset = 0, startTime = 1000\<rparr>"

definition example_layer :: ParticleLayer where
  "example_layer = \<lparr>childCount = 3,
     circles = (\<lambda>h. [''cx'' \<mapsto> Num 5, ''cy'' \<mapsto> Num 7, ''opacity'' \<mapsto> Num 0.5])\<rparr>"

text \<open>An edge label with a 40 by 20 box at (10, 5).\<close>

definition example_edge_label :: node where
  "example_edge_label = El ''svg'' [] Map.empty
     [El ''g'' [''edgeLabel''] Map.empty
        [El ''rect'' [] [''width'' \<mapsto> Num 40, ''height'' \<mapsto> Num 20, ''x'' \<mapsto> Num 10, ''y'' \<mapsto> Num 5] [],
         El ''text'' [] Map.empty [TextNode ''Yes'']]]"


text \<open>A red and a blue theme.\<close>

definition example_theme :: "string \<Rightarrow> CustomTheme" where
  "example_theme colour = \<lparr>primaryColor = Some colour, secondaryColor = None,
     backgroundColor = None, textColor = None, particleColor = None, strokeWidth = None,
     fontSize = None\<rparr>"

text \<open>
  A browser in which the fetch of every URL is blocked and no image loads, and one in
  which the fetch succeeds and the file reader fails.
\<close>

definition example_env_blocked :: ExportEnv where
  "example_env_blocked = \<lparr>fetch = (\<lambda>url. None), blob = (\<lambda>r. None),
     readAsDataURL = (\<lambda>b. None), loadImage = (\<lambda>url. None), getContext2d = (\<lambda>i. True),
     drawAndEncode = (\<lambda>i. None)\<rparr>"

definition example_env_reader_fails :: ExportEnv where
  "example_env_reader_fails = \<lparr>fetch = (\<lambda>url. Some url), blob = (\<lambda>r. Some r),
     readAsDataURL = (\<lambda>b. None), loadImage = (\<lambda>url. None), getContext2d = (\<lambda>i. True),
     drawAndEncode = (\<lambda>i. None)\<rparr>"




section \<open>Duration clamp\<close>

text \<open>
  C2 (as the code has it). For every non-negative path length \<open>L\<close> the duration is
  \<open>L * 15\<close> clamped to \<open>[2000, 3500]\<close>: 2000 ms for length 0, 3500 ms for every
  length of at least \<open>3500 / 15\<close>, and 2000 ms (the lower bound, not 1500 ms) for
  length 100.
\<close>

theorem calculateDuration_clamp:
  assumes "0 \<le> L"
  shows "calculateDuration L = max 2000 (min 3500 (L * 15))
    \<and> (L = 0 \<longrightarrow> calculateDuration L = 2000)
    \<and> (3500 / 15 \<le> L \<longrightarrow> calculateDuration L = 3500)
    \<and> (L = 100 \<longrightarrow> calculateDuration L = 2000)"
  by (simp add: calculateDuration_def PARTICLE_CONFIG_def)

theorem calculateDuration_clamp_witness:
  "(0::real) \<le> 250 \<and> calculateDuration 250 = 3500 \<and> calculateDuration 0 = 2000
     \<and> calculateDuration 100 = 2000"
  using calculateDuration_clamp [of 250] calculateDuration_clamp [of 0]
    calculateDuration_clamp [of 100]
  by simp

text \<open>
  The spec's own example for path length 100 asks for 1500 ms; the code returns the
  lower bound of the clamp.
\<close>

theorem calculateDuration_100_counterexample:
  "calculateDuration 100 = 2000 \<and> calculateDuration 100 \<noteq> 1500"
  by (simp add: calculateDuration_def PARTICLE_CONFIG_def)

section \<open>The frame update of one particle\<close>

lemma getAttribute_setAttribute:
  "getAttribute (setAttribute k v as) k' = (if k' = k then Some v else getAttribute as k')"
  by (simp add: getAttribute_def setAttribute_def)

lemma circles_setCircleAttribute:
  "circles (setCircleAttribute h k v g) h' =
     (if h' = h then setAttribute k v (circles g h) else circles g h')"
  by (simp add: setCircleAttribute_def)


text \<open>
  C3. The opacity function is 0 at 0, 1 at 0.15, 0.5 and 0.85, and 0 at 1; it is the
  linear ramp \<open>p / 0.15\<close> on \<open>[0, 0.15]\<close> (strictly increasing), constantly 1 on
  \<open>[0.15, 0.85]\<close>, and the linear ramp \<open>(1 - p) / 0.15\<close> on \<open>[0.85, 1]\<close>
  (strictly decreasing). In a frame, a particle inside its window whose path yields a
  point gets as opacity the opacity function of the raw local progress, and as position
  the point at the arc length \<open>easeInOutCubic progress * pathLength\<close>.
\<close>

theorem opacity_trapezoid_raw_progress:
  "calculateOpacity 0 = 0 \<and> calculateOpacity 0.15 = 1 \<and> calculateOpacity 0.5 = 1
   \<and> calculateOpacity 0.85 = 1 \<and> calculateOpacity 1 = 0
   \<and> (0 \<le> p \<and> p \<le> 0.15 \<longrightarrow> calculateOpacity p = p / 0.15)
   \<and> (0 \<le> p \<and> p < q \<and> q \<le> 0.15 \<longrightarrow> calculateOpacity p < calculateOpacity q)
   \<and> (0.15 \<le> p \<and> p \<le> 0.85 \<longrightarrow> calculateOpacity p = 1)
   \<and> (0.85 \<le> p \<and> p \<le> 1 \<longrightarrow> calculateOpacity p = (1 - p) / 0.15)
   \<and> (0.85 \<le> p \<and> p < q \<and> q \<le> 1 \<longrightarrow> calculateOpacity q < calculateOpacity p)
   \<and> (isInActiveWindow a t tot s
        \<and> gp (path a) (easeInOutCubic (progressInParticle a t tot s) * pathLength a) = Some (x, y)
      \<longrightarrow> getAttribute (circles (updateParticlePosition gp a t isCore tot s g) (element a))
              ''opacity'' = Some (Num (calculateOpacity (progressInParticle a t tot s)))
        \<and> getAttribute (circles (updateParticlePosition gp a t isCore tot s g) (element a))
              ''cx'' = Some (Num x)
        \<and> getAttribute (circles (updateParticlePosition gp a t isCore tot s g) (element a))
              ''cy'' = Some (Num y))"
proof -
  have vals: "calculateOpacity 0 = 0 \<and> calculateOpacity 0.15 = 1 \<and> calculateOpacity 0.5 = 1
      \<and> calculateOpacity 0.85 = 1 \<and> calculateOpacity 1 = 0"
    by (simp add: calculateOpacity_def)
  have up: "0 \<le> p \<and> p \<le> 0.15 \<longrightarrow> calculateOpacity p = p / 0.15"
    by (auto simp add: calculateOpacity_def Let_def)
  have inc: "0 \<le> p \<and> p < q \<and> q \<le> 0.15 \<longrightarrow> calculateOpacity p < calculateOpacity q"
    by (auto simp add: calculateOpacity_def Let_def divide_strict_right_mono)
  have flat: "0.15 \<le> p \<and> p \<le> 0.85 \<longrightarrow> calculateOpacity p = 1"
    by (auto simp add: calculateOpacity_def Let_def)
  have down: "0.85 \<le> p \<and> p \<le> 1 \<longrightarrow> calculateOpacity p = (1 - p) / 0.15"
    by (auto simp add: calculateOpacity_def Let_def)
  have dec: "0.85 \<le> p \<and> p < q \<and> q \<le> 1 \<longrightarrow> calculateOpacity q < calculateOpacity p"
    by (auto simp add: calculateOpacity_def Let_def divide_strict_right_mono)
  have frame: "isInActiveWindow a t tot s
        \<and> gp (path a) (easeInOutCubic (progressInParticle a t tot s) * pathLength a) = Some (x, y)
      \<longrightarrow> getAttribute (circles (updateParticlePosition gp a t isCore tot s g) (element a))
              ''opacity'' = Some (Num (calculateOpacity (progressInParticle a t tot s)))
        \<and> getAttribute (circles (updateParticlePosition gp a t isCore tot s g) (element a))
              ''cx'' = Some (Num x)
        \<and> getAttribute (circles (updateParticlePosition gp a t isCore tot s g) (element a))
              ''cy'' = Some (Num y)"
    by (simp add: updateParticlePosition_def Let_def circles_setCircleAttribute
        getAttribute_setAttribute)
  from vals up inc flat down dec frame show ?thesis by blast
qed

text \<open>
  At a quarter of the ramp (progress 0.1 at time 1200) the particle of the example is
  at arc length \<open>0.004 * 100\<close> (eased) with opacity \<open>0.1 / 0.15\<close> (raw).
\<close>

theorem opacity_trapezoid_raw_progress_witness:
  "calculateOpacity (1 / 10) < calculateOpacity (3 / 20)
   \<and> calculateOpacity (9 / 10) = 2 / 3
   \<and> isInActiveWindow example_animation 1200 2000 1000
   \<and> getAttribute (circles (updateParticlePosition (\<lambda>p d. Some (d, 2 * d)) example_animation
        1200 True 2000 1000 example_layer) 1) ''opacity'' = Some (Num (2 / 3))
   \<and> getAttribute (circles (updateParticlePosition (\<lambda>p d. Some (d, 2 * d)) example_animation
        1200 True 2000 1000 example_layer) 1) ''cx'' = Some (Num (2 / 5))"
proof -
  have w: "isInActiveWindow example_animation 1200 2000 1000"
    by (simp add: isInActiveWindow_def cycleTime_def js_rem_def example_animation_def)
  have pr: "progressInParticle example_animation 1200 2000 1000 = 1 / 10"
    by (simp add: progressInParticle_def cycleTime_def js_rem_def example_animation_def)
  have ea: "easeInOutCubic (1 / 10) * pathLength example_animation = 2 / 5"
    by (simp add: easeInOutCubic_def example_animation_def)
  have el: "element example_animation = 1"
    by (simp add: example_animation_def)
  have op: "calculateOpacity (1 / 10) = 2 / 3"
    by (simp add: calculateOpacity_def)
  show ?thesis
    using opacity_trapezoid_raw_progress [of "1 / 10" "3 / 20" example_animation 1200 2000 1000
        "\<lambda>p d. Some (d, 2 * d)" "2 / 5" "4 / 5" True example_layer]
      opacity_trapezoid_raw_progress [of "9 / 10" 1 example_animation 1200 2000 1000
        "\<lambda>p d. Some (d, 2 * d)" "2 / 5" "4 / 5" True example_layer]
    by (simp add: w pr ea el op)
qed



section \<open>Sequential particle windows\<close>












section \<open>Lemmas on trees: every forEach is a relabelling\<close>

lemma length_relabelList [simp]: "length (relabelList h k cs) = length cs"
  by (induction cs arbitrary: k) simp_all

lemma nth_relabelList:
  "i < length cs \<Longrightarrow> relabelList h k cs ! i = relabel (\<lambda>r. h ((k + i) # r)) (cs ! i)"
proof (induction cs arbitrary: k i)
  case Nil
  then show ?case by simp
next
  case (Cons c cs)
  show ?case
  proof (cases i)
    case 0
    then show ?thesis by simp
  next
    case (Suc j)
    with Cons.prems have "j < length cs" by simp
    from Cons.IH [OF this, of "Suc k"] Suc show ?thesis by simp
  qed
qed

lemma relabel_cong_elemAt:
  "(\<And>r e. elemAt n r = Some e \<Longrightarrow> h r e = h' r e) \<Longrightarrow> relabel h n = relabel h' n"
proof (induction n arbitrary: h h')
  case (Element e cs)
  have top: "h [] e = h' [] e"
    using Element.prems [of "[]" e] by (simp add: elemAt_def)
  have "relabelList h 0 cs = relabelList h' 0 cs"
  proof (rule nth_equalityI)
    show "length (relabelList h 0 cs) = length (relabelList h' 0 cs)" by simp
  next
    fix i assume "i < length (relabelList h 0 cs)"
    then have i: "i < length cs" by simp
    then have mem: "cs ! i \<in> set cs" by simp
    have "relabel (\<lambda>r. h (i # r)) (cs ! i) = relabel (\<lambda>r. h' (i # r)) (cs ! i)"
    proof (rule Element.IH [OF mem])
      fix r e' assume "elemAt (cs ! i) r = Some e'"
      then have "elemAt (Element e cs) (i # r) = Some e'"
        using i by (simp add: elemAt_def)
      then show "h (i # r) e' = h' (i # r) e'" by (rule Element.prems)
    qed
    then show "relabelList h 0 cs ! i = relabelList h' 0 cs ! i"
      using i by (simp add: nth_relabelList)
  qed
  with top show ?case by simp
qed simp_all

lemma relabel_id: "relabel (\<lambda>r e. e) n = n"
proof (induction n)
  case (Element e cs)
  have "relabelList (\<lambda>r e. e) 0 cs = cs"
  proof (rule nth_equalityI)
    show "length (relabelList (\<lambda>r e. e) 0 cs) = length cs" by simp
  next
    fix i assume "i < length (relabelList (\<lambda>r e. e) 0 cs)"
    then have i: "i < length cs" by simp
    then show "relabelList (\<lambda>r e. e) 0 cs ! i = cs ! i"
      using Element.IH [of "cs ! i"] by (simp add: nth_relabelList)
  qed
  then show ?case by simp
qed simp_all

lemma relabel_relabel:
  "relabel h2 (relabel h1 n) = relabel (\<lambda>r e. h2 r (h1 r e)) n"
proof (induction n arbitrary: h1 h2)
  case (Element e cs)
  have "relabelList h2 0 (relabelList h1 0 cs) = relabelList (\<lambda>r e. h2 r (h1 r e)) 0 cs"
  proof (rule nth_equalityI)
    show "length (relabelList h2 0 (relabelList h1 0 cs))
        = length (relabelList (\<lambda>r e. h2 r (h1 r e)) 0 cs)" by simp
  next
    fix i assume "i < length (relabelList h2 0 (relabelList h1 0 cs))"
    then have i: "i < length cs" by simp
    then show "relabelList h2 0 (relabelList h1 0 cs) ! i
        = relabelList (\<lambda>r e. h2 r (h1 r e)) 0 cs ! i"
      using Element.IH [of "cs ! i" "\<lambda>r. h2 (i # r)" "\<lambda>r. h1 (i # r)"]
      by (simp add: nth_relabelList)
  qed
  then show ?case by simp
qed simp_all

lemma modifyNth_eq:
  "modifyNth i r f cs = (if i < length cs then cs[i := modifyAt r f (cs ! i)] else cs)"
proof (induction cs arbitrary: i)
  case Nil
  show ?case by simp
next
  case (Cons c cs)
  show ?case by (cases i) (simp_all add: Cons.IH)
qed

lemma modifyAt_relabel:
  "modifyAt r f n = relabel (\<lambda>r' e. if r' = r then f e else e) n"
proof (induction n arbitrary: r)
  case (Element e cs)
  show ?case
  proof (cases r)
    case Nil
    have "relabelList (\<lambda>r' e. if r' = [] then f e else e) 0 cs = cs"
    proof (rule nth_equalityI)
      show "length (relabelList (\<lambda>r' e. if r' = [] then f e else e) 0 cs) = length cs"
        by simp
    next
      fix i assume "i < length (relabelList (\<lambda>r' e. if r' = [] then f e else e) 0 cs)"
      then show "relabelList (\<lambda>r' e. if r' = [] then f e else e) 0 cs ! i = cs ! i"
        by (simp add: nth_relabelList relabel_id)
    qed
    with Nil show ?thesis by simp
  next
    case (Cons j r')
    have "relabelList (\<lambda>r'' e. if r'' = j # r' then f e else e) 0 cs = modifyNth j r' f cs"
    proof (rule nth_equalityI)
      show "length (relabelList (\<lambda>r'' e. if r'' = j # r' then f e else e) 0 cs)
          = length (modifyNth j r' f cs)"
        by (simp add: modifyNth_eq)
    next
      fix i assume "i < length (relabelList (\<lambda>r'' e. if r'' = j # r' then f e else e) 0 cs)"
      then have i: "i < length cs" by simp
      show "relabelList (\<lambda>r'' e. if r'' = j # r' then f e else e) 0 cs ! i
          = modifyNth j r' f cs ! i"
      proof (cases "i = j")
        case True
        then show ?thesis
          using i Element.IH [of "cs ! i" r']
          by (simp add: nth_relabelList modifyNth_eq)
      next
        case False
        then show ?thesis
          using i by (simp add: nth_relabelList modifyNth_eq relabel_id)
      qed
    qed
    with Cons show ?thesis by simp
  qed
qed simp_all

lemma forEach_Cons: "forEach (r # R) f n = forEach R f (modifyAt r f n)"
  by (simp add: forEach_def)

lemma forEach_relabel:
  "forEach R f n = relabel (\<lambda>r. f ^^ count_list R r) n"
proof (induction R arbitrary: n)
  case Nil
  show ?case using relabel_id [of n] by (simp add: forEach_def id_def)
next
  case (Cons r R)
  have "forEach (r # R) f n
      = relabel (\<lambda>r' e. (f ^^ count_list R r') (if r' = r then f e else e)) n"
    by (simp add: forEach_Cons Cons.IH modifyAt_relabel relabel_relabel)
  also have "(\<lambda>r' e. (f ^^ count_list R r') (if r' = r then f e else e))
      = (\<lambda>r'. f ^^ count_list (r # R) r')"
    by (auto simp: fun_eq_iff funpow_swap1)
  finally show ?case .
qed

lemma nodeAt_relabel:
  "nodeAt (relabel h n) r = map_option (relabel (\<lambda>r'. h (r @ r'))) (nodeAt n r)"
proof (induction n arbitrary: h r)
  case (Element e cs)
  show ?case
  proof (cases r)
    case Nil
    then show ?thesis by simp
  next
    case (Cons i r')
    show ?thesis
    proof (cases "i < length cs")
      case True
      then show ?thesis
        using Cons Element.IH [of "cs ! i" "\<lambda>r. h (i # r)" r']
        by (simp add: nth_relabelList)
    next
      case False
      then show ?thesis using Cons by simp
    qed
  qed
next
  case (TextNode s)
  then show ?case by (cases r) simp_all
next
  case (StyleText rs)
  then show ?case by (cases r) simp_all
qed

lemma elemAt_relabel:
  "elemAt (relabel h n) r = map_option (h r) (elemAt n r)"
proof -
  show ?thesis
  proof (cases "nodeAt n r")
    case None
    then show ?thesis by (simp add: elemAt_def nodeAt_relabel)
  next
    case (Some m)
    then show ?thesis by (cases m) (simp_all add: elemAt_def nodeAt_relabel)
  qed
qed

lemma elemAt_forEach:
  "elemAt (forEach R f n) r = map_option (f ^^ count_list R r) (elemAt n r)"
  by (simp add: forEach_relabel elemAt_relabel)







section \<open>Edge label boxes\<close>

lemmas elem_defs = setAttr_def getAttr_def getAttribute_def setAttribute_def classList_add_def

lemma orElse_cases:
  "orElse a d = (case a of None \<Rightarrow> d | Some (Str s) \<Rightarrow> if s = [] then d else Str s | Some (Num r) \<Rightarrow> Num r)"
  by (cases "(a, d)" rule: orElse.cases) simp_all

lemma enhanceEdgeLabelBox_width:
  assumes W: "parseFloat (orElse (getAttr rect ''width'') (Num 0)) = Some w"
  shows "(w < 110 \<and> parseFloat (orElse (getAttr rect ''x'') (Num 0)) = Some x \<longrightarrow>
            getAttr (enhanceEdgeLabelBox rect) ''width'' = Some (Num 110)
          \<and> getAttr (enhanceEdgeLabelBox rect) ''x'' = Some (Num (x - (110 - w) / 2)))
       \<and> (110 \<le> w \<longrightarrow>
            getAttr (enhanceEdgeLabelBox rect) ''width'' = getAttr rect ''width''
          \<and> getAttr (enhanceEdgeLabelBox rect) ''x'' = getAttr rect ''x'')"
  using W
  by (auto simp: enhanceEdgeLabelBox_def Let_def elem_defs EDGE_LABEL_MIN_SIZE_def max_def)

lemma enhanceEdgeLabelBox_height:
  assumes H: "parseFloat (orElse (getAttr rect ''height'') (Num 0)) = Some h"
  shows "(h < 60 \<and> parseFloat (orElse (getAttr rect ''y'') (Num 0)) = Some y \<longrightarrow>
            getAttr (enhanceEdgeLabelBox rect) ''height'' = Some (Num 60)
          \<and> getAttr (enhanceEdgeLabelBox rect) ''y'' = Some (Num (y - (60 - h) / 2)))
       \<and> (60 \<le> h \<longrightarrow>
            getAttr (enhanceEdgeLabelBox rect) ''height'' = getAttr rect ''height''
          \<and> getAttr (enhanceEdgeLabelBox rect) ''y'' = getAttr rect ''y'')"
  using H
  by (auto simp: enhanceEdgeLabelBox_def Let_def elem_defs EDGE_LABEL_MIN_SIZE_def max_def)

lemma enhanceEdgeLabelBox_frame:
  "getAttr (enhanceEdgeLabelBox rect) ''rx'' = Some (Num 12)
   \<and> getAttr (enhanceEdgeLabelBox rect) ''ry'' = Some (Num 12)
   \<and> (\<forall>k. k \<notin> {''width'', ''x'', ''height'', ''y'', ''rx'', ''ry''} \<longrightarrow>
         getAttr (enhanceEdgeLabelBox rect) k = getAttr rect k)
   \<and> tagName (enhanceEdgeLabelBox rect) = tagName rect
   \<and> classList (enhanceEdgeLabelBox rect) = classList rect"
  by (simp add: enhanceEdgeLabelBox_def Let_def elem_defs EDGE_LABEL_MIN_SIZE_def)

lemma elem_eqI:
  "tagName a = tagName b \<Longrightarrow> classList a = classList b \<Longrightarrow> attributes a = attributes b
     \<Longrightarrow> (a :: elem) = b"
  by simp

lemma enhanceEdgeLabelBox_idem:
  "enhanceEdgeLabelBox (enhanceEdgeLabelBox e) = enhanceEdgeLabelBox e"
proof -
  let ?W = "parseFloat (orElse (attributes e ''width'') (Num 0))"
  let ?H = "parseFloat (orElse (attributes e ''height'') (Num 0))"
  show ?thesis
  proof (cases ?W; cases ?H)
    fix w h assume "?W = Some w" "?H = Some h"
    then show ?thesis
      by (cases "w < 110"; cases "h < 60")
        (auto simp: enhanceEdgeLabelBox_def Let_def elem_defs EDGE_LABEL_MIN_SIZE_def max_def
          fun_eq_iff intro!: elem_eqI)
  next
    fix h assume "?W = None" "?H = Some h"
    then show ?thesis
      by (cases "h < 60")
        (auto simp: enhanceEdgeLabelBox_def Let_def elem_defs EDGE_LABEL_MIN_SIZE_def max_def
          fun_eq_iff intro!: elem_eqI)
  next
    fix w assume "?W = Some w" "?H = None"
    then show ?thesis
      by (cases "w < 110")
        (auto simp: enhanceEdgeLabelBox_def Let_def elem_defs EDGE_LABEL_MIN_SIZE_def max_def
          fun_eq_iff intro!: elem_eqI)
  next
    assume "?W = None" "?H = None"
    then show ?thesis
      by (auto simp: enhanceEdgeLabelBox_def Let_def elem_defs EDGE_LABEL_MIN_SIZE_def max_def
          fun_eq_iff intro!: elem_eqI)
  qed
qed

lemma funpow_idem:
  assumes "\<And>e. f (f e) = f e"
  shows "(f ^^ Suc k) e = f e"
  by (induction k) (simp_all add: assms)

lemma count_list_pos: "r \<in> set R \<Longrightarrow> \<exists>k. count_list R r = Suc k"
  by (metis count_list_0_iff not0_implies_Suc)

text \<open>
  C9. For every edge-label rectangle that \<open>enhanceEdgeLabelBoxes\<close> processes, with
  a numeric width \<open>w\<close> and height \<open>h\<close> (a missing one counts as 0): a width
  below 110 becomes 110 and \<open>x\<close> moves left by half the increase, so the centre
  \<open>x + width / 2\<close> stays; a height below 60 becomes 60 and \<open>y\<close> moves up by half
  the increase; a width (height) of at least the minimum leaves width and \<open>x\<close>
  (height and \<open>y\<close>) as they are; the corner radii are set to 12 and nothing else of
  the rectangle changes.
\<close>

theorem edge_label_box_center_preserved:
  assumes sel: "r \<in> set (querySelectorAll svgEl SELECTORS_edgeLabelRects)"
    and at: "elemAt svgEl r = Some rect"
    and W: "parseFloat (orElse (getAttr rect ''width'') (Num 0)) = Some w"
    and H: "parseFloat (orElse (getAttr rect ''height'') (Num 0)) = Some h"
  shows "\<exists>rect'. elemAt (enhanceEdgeLabelBoxes svgEl) r = Some rect'
     \<and> (w < 110 \<and> parseFloat (orElse (getAttr rect ''x'') (Num 0)) = Some x \<longrightarrow>
            getAttr rect' ''width'' = Some (Num 110)
          \<and> getAttr rect' ''x'' = Some (Num (x - (110 - w) / 2))
          \<and> (x - (110 - w) / 2) + 110 / 2 = x + w / 2)
     \<and> (110 \<le> w \<longrightarrow>
            getAttr rect' ''width'' = getAttr rect ''width''
          \<and> getAttr rect' ''x'' = getAttr rect ''x'')
     \<and> (h < 60 \<and> parseFloat (orElse (getAttr rect ''y'') (Num 0)) = Some y \<longrightarrow>
            getAttr rect' ''height'' = Some (Num 60)
          \<and> getAttr rect' ''y'' = Some (Num (y - (60 - h) / 2))
          \<and> (y - (60 - h) / 2) + 60 / 2 = y + h / 2)
     \<and> (60 \<le> h \<longrightarrow>
            getAttr rect' ''height'' = getAttr rect ''height''
          \<and> getAttr rect' ''y'' = getAttr rect ''y'')
     \<and> getAttr rect' ''rx'' = Some (Num 12) \<and> getAttr rect' ''ry'' = Some (Num 12)
     \<and> (\<forall>k. k \<notin> {''width'', ''x'', ''height'', ''y'', ''rx'', ''ry''} \<longrightarrow>
           getAttr rect' k = getAttr rect k)
     \<and> tagName rect' = tagName rect \<and> classList rect' = classList rect"
proof -
  from count_list_pos [OF sel] obtain k where
    "count_list (querySelectorAll svgEl SELECTORS_edgeLabelRects) r = Suc k" by blast
  then have "elemAt (enhanceEdgeLabelBoxes svgEl) r = Some (enhanceEdgeLabelBox rect)"
    using at funpow_idem [of enhanceEdgeLabelBox k rect, OF enhanceEdgeLabelBox_idem]
    by (simp add: enhanceEdgeLabelBoxes_def elemAt_forEach)
  moreover have "(x - (110 - w) / 2) + 110 / 2 = x + w / 2"
    and "(y - (60 - h) / 2) + 60 / 2 = y + h / 2"
    by (simp_all add: field_simps)
  ultimately show ?thesis
    using enhanceEdgeLabelBox_width [OF W, of x] enhanceEdgeLabelBox_height [OF H, of y]
      enhanceEdgeLabelBox_frame [of rect]
    by simp
qed

theorem edge_label_box_center_preserved_witness:
  "[0, 0] \<in> set (querySelectorAll example_edge_label SELECTORS_edgeLabelRects)
   \<and> (\<exists>rect'. elemAt (enhanceEdgeLabelBoxes example_edge_label) [0, 0] = Some rect'
        \<and> getAttr rect' ''width'' = Some (Num 110) \<and> getAttr rect' ''x'' = Some (Num (- 25))
        \<and> getAttr rect' ''height'' = Some (Num 60) \<and> getAttr rect' ''y'' = Some (Num (- 15)))"
proof -
  let ?rect = "\<lparr>tagName = ''rect'', classList = [],
     attributes = [''width'' \<mapsto> Num 40, ''height'' \<mapsto> Num 20, ''x'' \<mapsto> Num 10, ''y'' \<mapsto> Num 5]\<rparr>"
  have sel: "[0, 0] \<in> set (querySelectorAll example_edge_label SELECTORS_edgeLabelRects)"
    by (simp add: example_edge_label_def querySelectorAll_def SELECTORS_edgeLabelRects_def
        matches_def)
  have at: "elemAt example_edge_label [0, 0] = Some ?rect"
    by (simp add: example_edge_label_def elemAt_def)
  have W: "parseFloat (orElse (getAttr ?rect ''width'') (Num 0)) = Some 40"
    and H: "parseFloat (orElse (getAttr ?rect ''height'') (Num 0)) = Some 20"
    and X: "parseFloat (orElse (getAttr ?rect ''x'') (Num 0)) = Some 10"
    and Y: "parseFloat (orElse (getAttr ?rect ''y'') (Num 0)) = Some 5"
    by (simp_all add: getAttr_def getAttribute_def)
  show ?thesis
    using edge_label_box_center_preserved [OF sel at W H, of 10 5] sel X Y
    by auto
qed

section \<open>The edge fallback\<close>








section \<open>Re-applying a theme\<close>

lemma applyCustomTheme_children:
  "applyCustomTheme theme (Element e cs) =
     Element e (cs @ (case theme of None \<Rightarrow> []
        | Some th \<Rightarrow> if customStyles th \<noteq> [] then [styleElement (customStyles th)] else []))"
  by (simp add: applyCustomTheme_def split: option.splits)

text \<open>
  C5 (as the code has it). For every sequence of theme overrides applied to the same
  graphic instance, each invocation whose theme yields at least one rule appends one
  style block with that theme's rules as the last child of the root, after the blocks
  injected before; the earlier blocks are retained and nothing else changes. So the
  rules of the newest theme come last, and the blocks of the older themes stay in the
  graphic.
\<close>

theorem applyCustomTheme_accumulates:
  "foldl (\<lambda>t theme. applyCustomTheme theme t) (Element e cs) themes =
     Element e (cs @ concat (map (\<lambda>theme. case theme of None \<Rightarrow> []
        | Some th \<Rightarrow> if customStyles th \<noteq> [] then [styleElement (customStyles th)] else [])
        themes))"
proof (induction themes arbitrary: cs)
  case Nil
  show ?case by simp
next
  case (Cons theme themes)
  show ?case
    by (simp only: foldl_Cons applyCustomTheme_children Cons.IH) simp
qed

text \<open>
  C5 as the spec words it fails: after the red theme and then the blue theme, the root
  holds the red style block and the blue one.
\<close>

theorem applyCustomTheme_counterexample:
  "childNodes (applyCustomTheme (Some (example_theme ''blue''))
      (applyCustomTheme (Some (example_theme ''red'')) example_flowchart))
   = childNodes example_flowchart
       @ [styleElement (customStyles (example_theme ''red'')),
          styleElement (customStyles (example_theme ''blue''))]
   \<and> customStyles (example_theme ''red'') \<noteq> customStyles (example_theme ''blue'')"
  by (simp add: applyCustomTheme_def example_flowchart_def customStyles_def example_theme_def)

section \<open>The export fallback chain\<close>

text \<open>
  The copy of \<open>urlToDataUri\<close> with the fallback chain resolves whenever the fetch
  fails or the fetched blob is read: with the data URI of the blob when fetch and read
  succeed, with the canvas rendering when the fetch fails and the image loads, and
  with the transparent pixel when that fails too.
\<close>

lemma urlToDataUri_chain:
  "(fetch env url = Some resp \<and> blob env resp = Some b \<and> readAsDataURL env b = Some uri
      \<longrightarrow> urlToDataUri env url = Inr uri)
   \<and> (fetch env url = None \<and> loadImageAsDataUri env url = Inr uri
      \<longrightarrow> urlToDataUri env url = Inr uri)
   \<and> (fetch env url = None \<and> loadImageAsDataUri env url = Inl err
      \<longrightarrow> urlToDataUri env url = Inr TRANSPARENT_PIXEL)
   \<and> (urlToDataUri env url = Inl err \<longrightarrow> err = FileReaderError
         \<and> (\<exists>resp b. fetch env url = Some resp \<and> blob env resp = Some b
               \<and> readAsDataURL env b = None))"
  by (auto simp: urlToDataUri_def readBlob_def Let_def split: option.splits sum.splits)

text \<open>
  C6, the two inputs at which the code leaves the claim. With every fetch blocked, the
  other copy of \<open>urlToDataUri\<close> resolves to the URL it was given (no canvas
  fallback, no placeholder), where the copy with the chain resolves to the transparent
  pixel. With a fetch that succeeds and a file reader that fails, both copies reject,
  and so does the inlining of an image with that URL.
\<close>

theorem urlToDataUri_failing_inputs:
  "urlToDataUri_other_copy example_env_blocked ''https://x/a.png'' = Inr ''https://x/a.png''
   \<and> urlToDataUri example_env_blocked ''https://x/a.png'' = Inr TRANSPARENT_PIXEL
   \<and> urlToDataUri example_env_reader_fails ''https://x/a.png'' = Inl FileReaderError
   \<and> urlToDataUri_other_copy example_env_reader_fails ''https://x/a.png'' = Inl FileReaderError
   \<and> inlineStyles urlToDataUri example_env_reader_fails []
        (El ''svg'' [] Map.empty [El ''image'' [] [''href'' \<mapsto> Str ''https://x/a.png''] []])
       = Inl FileReaderError"
  by (simp add: urlToDataUri_other_copy_def urlToDataUri_def example_env_blocked_def
      example_env_reader_fails_def loadImageAsDataUri_def readBlob_def elemAt_def
      imageHref_def getAttr_def getAttribute_def inlineStyles_def querySelectorAll_def
      matches_def)

section \<open>The image micro-syntax on charts of lines\<close>


lemma isSpace_simps [simp]:
  "isSpace NL" "isSpace (CHR '' '')" "\<not> isSpace (CHR ''p'')" "\<not> isSpace (CHR ''i'')"
  by (simp_all add: isSpace_def)















lemma replaceAll_copy:
  "matchItems PARTICIPANT_IMG (c # cs) = None \<Longrightarrow>
     replaceAll (c # cs) (out, m) = replaceAll cs (out @ [c], m)"
  by simp





section \<open>Actor images\<close>












section \<open>Running the classifier twice\<close>

subsection \<open>Alike elements and stable selectors\<close>

lemma alike_refl [simp]: "alike e e"
  by (simp add: alike_def)















subsection \<open>The element operations of the passes\<close>


























subsection \<open>The four class passes as one relabelling\<close>




subsection \<open>Appending a childless element that no selector matches\<close>









subsection \<open>Positions that no pass selects\<close>











subsection \<open>The class passes on a classified tree\<close>








end
